theory Spec2Isabelle
  imports Complex_Main "HOL-Library.Char_ord" "HOL-Library.List_Lexorder"
begin

section \<open>JavaScript values\<close>

text \<open>
  The screens read untyped JSON from the realtime database, so the values that reach the
  code are JavaScript values, whatever the TypeScript annotations say. A number is the real
  its double denotes, or \<open>NaN\<close>; the infinities are outside the model. \<open>Obj\<close> is a plain
  (non-array) object.
\<close>

datatype jsnum = Fin real | NaN

datatype jsval = Undefined | Null | JBool bool | JNum jsnum | Str string | Obj

abbreviation Num :: "real \<Rightarrow> jsval" where
  "Num x \<equiv> JNum (Fin x)"

text \<open>
  The library functions of the language that parse or print text are parameters of the
  model: \<open>Number(s)\<close> on a string, \<open>Date.parse(s)\<close>, \<open>x.toFixed(d)\<close> and the conversion
  of a number to a string in a template literal.
\<close>

record builtins =
  StringToNumber :: "string \<Rightarrow> jsnum"
  Date_parse :: "string \<Rightarrow> jsnum"
  toFixed :: "nat \<Rightarrow> real \<Rightarrow> string"
  NumberToString :: "real \<Rightarrow> string"

fun ToBoolean :: "jsval \<Rightarrow> bool" where
  "ToBoolean Undefined = False"
| "ToBoolean Null = False"
| "ToBoolean (JBool b) = b"
| "ToBoolean (JNum (Fin x)) = (x \<noteq> 0)"
| "ToBoolean (JNum NaN) = False"
| "ToBoolean (Str s) = (s \<noteq> [])"
| "ToBoolean Obj = True"

fun ToNumber :: "builtins \<Rightarrow> jsval \<Rightarrow> jsnum" where
  "ToNumber J Undefined = NaN"
| "ToNumber J Null = Fin 0"
| "ToNumber J (JBool b) = Fin (if b then 1 else 0)"
| "ToNumber J (JNum n) = n"
| "ToNumber J (Str s) = StringToNumber J s"
| "ToNumber J Obj = NaN"

fun ToPrimitive :: "jsval \<Rightarrow> jsval" where
  "ToPrimitive Obj = Str ''[object Object]''"
| "ToPrimitive v = v"

fun num_sub :: "jsnum \<Rightarrow> jsnum \<Rightarrow> jsnum" where
  "num_sub (Fin x) (Fin y) = Fin (x - y)"
| "num_sub _ _ = NaN"

text \<open>Comparisons with \<open>NaN\<close> on either side are false.\<close>

fun num_lt :: "jsnum \<Rightarrow> jsnum \<Rightarrow> bool" where
  "num_lt (Fin x) (Fin y) = (x < y)"
| "num_lt _ _ = False"

fun num_ge :: "jsnum \<Rightarrow> jsnum \<Rightarrow> bool" where
  "num_ge (Fin x) (Fin y) = (x \<ge> y)"
| "num_ge _ _ = False"

fun isNaN :: "jsnum \<Rightarrow> bool" where
  "isNaN NaN = True"
| "isNaN (Fin x) = False"

text \<open>
  \<open>a > b\<close> on arbitrary values: two strings are compared by code units, anything else
  numerically.
\<close>

definition js_gt :: "builtins \<Rightarrow> jsval \<Rightarrow> jsval \<Rightarrow> bool" where
  "js_gt J a b =
     (case (ToPrimitive a, ToPrimitive b) of
        (Str s, Str t) \<Rightarrow> t < s
      | _ \<Rightarrow> num_lt (ToNumber J b) (ToNumber J a))"

section \<open>The heartbeat monitor of the monitoring screen\<close>

definition HEARTBEAT_TIMEOUT :: real where
  "HEARTBEAT_TIMEOUT = 25000"

definition CHECK_INTERVAL :: real where
  "CHECK_INTERVAL = 5000"

definition INITIAL_GRACE_PERIOD :: real where
  "INITIAL_GRACE_PERIOD = 10000"

text \<open>
  The component's state that the monitor touches: the React state \<open>isOnline\<close> (what the
  screen renders), the two refs, and the interval handle. \<open>setIsOnline_calls\<close> logs every
  call of the state setter, in order.

  \<open>checkHeartbeatStatus\<close> is a function created anew by each render of the component, and
  the \<open>isOnline\<close> it reads is the constant of the render that created it.
  \<open>startHeartbeatMonitoring\<close> hands the function to \<open>setInterval\<close> from inside the effect
  that depends on \<open>estufaId\<close> alone, so the registered function is the one of the render in
  which \<open>estufaId\<close> changed; later renders do not replace it. The interval handle of the
  model therefore carries the value \<open>isOnline\<close> had in that render, and every function of
  the monitor that reads \<open>isOnline\<close> takes the value its closure sees as an argument.
\<close>

record monitor =
  isOnline :: bool
  lastHeartbeatRef :: jsval
  initialLoadRef :: bool
  heartbeatIntervalRef :: "bool option"
  setIsOnline_calls :: "bool list"

definition initial_monitor :: monitor where
  "initial_monitor =
     \<lparr>isOnline = False, lastHeartbeatRef = Num 0, initialLoadRef = True,
      heartbeatIntervalRef = None, setIsOnline_calls = []\<rparr>"

definition setIsOnline :: "bool \<Rightarrow> monitor \<Rightarrow> monitor" where
  "setIsOnline v m = m\<lparr>isOnline := v, setIsOnline_calls := setIsOnline_calls m @ [v]\<rparr>"

text \<open>
  \<open>checkHeartbeatStatus J seen currentTime m\<close>: \<open>seen\<close> is the \<open>isOnline\<close> of the closure,
  \<open>currentTime\<close> is \<open>Date.now()\<close>.
\<close>

definition checkHeartbeatStatus :: "builtins \<Rightarrow> bool \<Rightarrow> real \<Rightarrow> monitor \<Rightarrow> monitor" where
  "checkHeartbeatStatus J seen currentTime m =
     (let timeSinceLastHeartbeat = num_sub (Fin currentTime) (ToNumber J (lastHeartbeatRef m)) in
      if initialLoadRef m \<and> num_lt timeSinceLastHeartbeat (Fin INITIAL_GRACE_PERIOD)
      then setIsOnline True m
      else
        let m1 = (if initialLoadRef m \<and> num_ge timeSinceLastHeartbeat (Fin INITIAL_GRACE_PERIOD)
                  then m\<lparr>initialLoadRef := False\<rparr> else m);
            shouldBeOnline = num_lt timeSinceLastHeartbeat (Fin HEARTBEAT_TIMEOUT)
        in if seen \<noteq> shouldBeOnline then setIsOnline shouldBeOnline m1 else m1)"

definition startHeartbeatMonitoring :: "bool \<Rightarrow> monitor \<Rightarrow> monitor" where
  "startHeartbeatMonitoring seen m = m\<lparr>initialLoadRef := True, heartbeatIntervalRef := Some seen\<rparr>"

definition stopHeartbeatMonitoring :: "monitor \<Rightarrow> monitor" where
  "stopHeartbeatMonitoring m = m\<lparr>heartbeatIntervalRef := None\<rparr>"

definition updateHeartbeat :: "builtins \<Rightarrow> bool \<Rightarrow> real \<Rightarrow> jsval \<Rightarrow> monitor \<Rightarrow> monitor" where
  "updateHeartbeat J seen currentTime lastHeartbeat m =
     (if ToBoolean lastHeartbeat \<and> js_gt J lastHeartbeat (lastHeartbeatRef m)
      then checkHeartbeatStatus J seen currentTime (m\<lparr>lastHeartbeatRef := lastHeartbeat\<rparr>)
      else m)"

text \<open>The button's handler belongs to the render on screen, so it reads the current state.\<close>

definition forceStatusCheck :: "builtins \<Rightarrow> real \<Rightarrow> monitor \<Rightarrow> monitor" where
  "forceStatusCheck J currentTime m = checkHeartbeatStatus J (isOnline m) currentTime m"

text \<open>
  The effect that depends on \<open>estufaId\<close>. It runs in the render in which \<open>estufaId\<close>
  changed, so the closure it hands to \<open>setInterval\<close> reads that render's \<open>isOnline\<close>: the
  state before the effect's own \<open>setIsOnline(true)\<close>.
\<close>

definition heartbeatEffect :: "string option \<Rightarrow> real \<Rightarrow> monitor \<Rightarrow> monitor" where
  "heartbeatEffect estufaId currentTime m =
     (if estufaId \<noteq> None \<and> estufaId \<noteq> Some []
      then startHeartbeatMonitoring (isOnline m)
             (setIsOnline True (m\<lparr>lastHeartbeatRef := Num currentTime\<rparr>))
      else setIsOnline False (stopHeartbeatMonitoring m))"

text \<open>One firing of the interval registered by \<open>startHeartbeatMonitoring\<close>.\<close>

definition intervalTick :: "builtins \<Rightarrow> real \<Rightarrow> monitor \<Rightarrow> monitor" where
  "intervalTick J currentTime m =
     (case heartbeatIntervalRef m of
        None \<Rightarrow> m
      | Some seen \<Rightarrow> checkHeartbeatStatus J seen currentTime m)"



text \<open>A sequence of signals, each with the time at which it is delivered.\<close>

fun updateHeartbeats :: "builtins \<Rightarrow> bool \<Rightarrow> (real \<times> jsval) list \<Rightarrow> monitor \<Rightarrow> monitor" where
  "updateHeartbeats J seen [] m = m"
| "updateHeartbeats J seen ((currentTime, t) # sigs) m =
     updateHeartbeats J seen sigs (updateHeartbeat J seen currentTime t m)"

section \<open>The online check of the simpler monitoring screen\<close>

definition checkOnlineStatus :: "builtins \<Rightarrow> real \<Rightarrow> jsval \<Rightarrow> bool" where
  "checkOnlineStatus J currentTime lastHeartbeat =
     (if \<not> ToBoolean lastHeartbeat then False
      else
        let timeDiff = num_sub (Fin currentTime) (ToNumber J lastHeartbeat)
        in num_lt timeDiff (Fin 45000))"

section \<open>Double arithmetic\<close>

text \<open>
  The numbers of the language are IEEE 754 doubles, and every arithmetic operation gives the
  double nearest to the exact result, ties going to the even significand. \<open>fl\<close> is this
  rounding, on the reals: the result is \<open>n * 2 ^ e\<close> where \<open>2 ^ e\<close> is the spacing of the
  doubles around the argument (\<open>e\<close> is 52 below the binary exponent, and at least -1074, the
  spacing of the subnormal numbers) and \<open>n\<close> the nearest integer multiple. Results beyond the
  largest double, which the language turns into an infinity, are outside the model.

  The subtraction \<open>num_sub\<close> of the monitor is exact: it works on timestamps, integers of
  milliseconds far below \<open>2 ^ 53\<close>, where the operation does not round. The chart works on
  sensor readings and fractions of them, where it does.
\<close>

definition pow2 :: "int \<Rightarrow> real" where
  "pow2 e = (if 0 \<le> e then 2 ^ nat e else 1 / 2 ^ nat (- e))"

function bit_length :: "int \<Rightarrow> nat" where
  "bit_length n = (if n \<le> 0 then 0 else Suc (bit_length (n div 2)))"
  by pat_completeness auto
termination
  by (relation "measure nat") auto

declare bit_length.simps [simp del]

text \<open>The binary exponent of a positive number: \<open>2 ^ ilog2 a \<le> a < 2 ^ (ilog2 a + 1)\<close>.\<close>

definition ilog2 :: "real \<Rightarrow> int" where
  "ilog2 a = (if 1 \<le> a then int (bit_length \<lfloor>a\<rfloor>) - 1
              else - int (bit_length (\<lceil>1 / a\<rceil> - 1)))"

definition round_half_even :: "real \<Rightarrow> int" where
  "round_half_even q =
     (let f = \<lfloor>q\<rfloor>; d = q - of_int f
      in if d < 1 / 2 then f else if 1 / 2 < d then f + 1 else if even f then f else f + 1)"

definition fl :: "real \<Rightarrow> real" where
  "fl x =
     (if x = 0 then 0
      else
        let e = max (ilog2 \<bar>x\<bar> - 52) (- 1074);
            n = round_half_even (\<bar>x\<bar> / pow2 e)
        in sgn x * (of_int n * pow2 e))"

fun fl_add :: "jsnum \<Rightarrow> jsnum \<Rightarrow> jsnum" where
  "fl_add (Fin x) (Fin y) = Fin (fl (x + y))"
| "fl_add _ _ = NaN"

fun fl_sub :: "jsnum \<Rightarrow> jsnum \<Rightarrow> jsnum" where
  "fl_sub (Fin x) (Fin y) = Fin (fl (x - y))"
| "fl_sub _ _ = NaN"

fun fl_mul :: "jsnum \<Rightarrow> jsnum \<Rightarrow> jsnum" where
  "fl_mul (Fin x) (Fin y) = Fin (fl (x * y))"
| "fl_mul _ _ = NaN"

text \<open>
  Division by a non-zero number. A zero divisor gives an infinity or \<open>NaN\<close> in the language;
  the only divisor in the code is the constant 4.
\<close>

fun fl_div :: "jsnum \<Rightarrow> jsnum \<Rightarrow> jsnum" where
  "fl_div (Fin x) (Fin y) = (if y = 0 then NaN else Fin (fl (x / y)))"
| "fl_div _ _ = NaN"

section \<open>The history reducer\<close>

text \<open>
  A record of the history node. The fields are whatever the database holds, \<open>Undefined\<close>
  when the key is absent; \<open>timestamp\<close> is overwritten with the key of the record.
\<close>

record HistoricoItem =
  co :: jsval
  co2 :: jsval
  dataHora :: jsval
  luminosidade :: jsval
  temperatura :: jsval
  timestamp :: string
  tvocs :: jsval
  umidade :: jsval

text \<open>The \<open>key\<close> of the selected \<open>MetricOption\<close>: one of the five entries of \<open>metricOptions\<close>.\<close>

datatype metric_key = Temperatura | Umidade | Luminosidade | CO2 | CO

fun metric_field :: "metric_key \<Rightarrow> HistoricoItem \<Rightarrow> jsval" where
  "metric_field Temperatura item = temperatura item"
| "metric_field Umidade item = umidade item"
| "metric_field Luminosidade item = luminosidade item"
| "metric_field CO2 item = co2 item"
| "metric_field CO item = co item"

text \<open>
  \<open>new Date(v).getTime()\<close>: a string is parsed, anything else is read as a number of
  milliseconds, cut to an integer, and invalid beyond 8.64e15. An invalid date has the time
  \<open>NaN\<close>.
\<close>

fun Date_getTime :: "builtins \<Rightarrow> jsval \<Rightarrow> jsnum" where
  "Date_getTime J (Str s) = Date_parse J s"
| "Date_getTime J Undefined = NaN"
| "Date_getTime J Null = Fin 0"
| "Date_getTime J (JBool b) = Fin (if b then 1 else 0)"
| "Date_getTime J (JNum NaN) = NaN"
| "Date_getTime J (JNum (Fin x)) =
     (if 8640000000000000 < \<bar>x\<bar> then NaN
      else Fin (of_int (if 0 \<le> x then \<lfloor>x\<rfloor> else \<lceil>x\<rceil>)))"
| "Date_getTime J Obj = NaN"

text \<open>
  \<open>Array.prototype.sort\<close> with a comparator. The sort of the language is stable, and for a
  consistent comparator its result is the one stable insertion computes. A comparator
  result that is not positive (zero, negative or \<open>NaN\<close>) leaves the new element in front.
  With an inconsistent comparator the order is implementation-defined; the model then
  gives one admissible order.
\<close>

fun sort_insert :: "('a \<Rightarrow> 'a \<Rightarrow> jsnum) \<Rightarrow> 'a \<Rightarrow> 'a list \<Rightarrow> 'a list" where
  "sort_insert cmp x [] = [x]"
| "sort_insert cmp x (y # ys) =
     (if num_lt (Fin 0) (cmp x y) then y # sort_insert cmp x ys else x # y # ys)"

definition js_sort :: "('a \<Rightarrow> 'a \<Rightarrow> jsnum) \<Rightarrow> 'a list \<Rightarrow> 'a list" where
  "js_sort cmp xs = foldr (sort_insert cmp) xs []"

text \<open>
  The comparator of the history sort. Only its sign is used, and the rounding of the
  subtraction never changes the sign, so the exact difference stands for it.
\<close>

definition compareDataHora :: "builtins \<Rightarrow> HistoricoItem \<Rightarrow> HistoricoItem \<Rightarrow> jsnum" where
  "compareDataHora J a b = num_sub (Date_getTime J (dataHora a)) (Date_getTime J (dataHora b))"

text \<open>
  The callback of \<open>loadHistoricoFromFirebase\<close>: the value it passes to \<open>setHistorico\<close>.
  \<open>None\<close> is a snapshot without data; otherwise the entries come in the order of
  \<open>Object.keys\<close>.
\<close>

definition loadHistoricoFromFirebase ::
    "builtins \<Rightarrow> (string \<times> HistoricoItem) list option \<Rightarrow> HistoricoItem list" where
  "loadHistoricoFromFirebase J data =
     (case data of
        None \<Rightarrow> []
      | Some entries \<Rightarrow>
          js_sort (compareDataHora J) (map (\<lambda>(key, r). r\<lparr>timestamp := key\<rparr>) entries))"

definition is_nullish :: "jsval \<Rightarrow> bool" where
  "is_nullish v = (v = Undefined \<or> v = Null)"

definition filteredHistorico :: "builtins \<Rightarrow> metric_key \<Rightarrow> HistoricoItem list \<Rightarrow> HistoricoItem list" where
  "filteredHistorico J key historico =
     (if length historico = 0 then []
      else filter (\<lambda>item. let v = metric_field key item
                          in \<not> is_nullish v \<and> \<not> isNaN (ToNumber J v)) historico)"

text \<open>The data points handed to the chart: \<open>Number(value)\<close> of every filtered record.\<close>

definition chartData_data :: "builtins \<Rightarrow> metric_key \<Rightarrow> HistoricoItem list \<Rightarrow> jsnum list" where
  "chartData_data J key filtered =
     (if length filtered = 0 then []
      else map (\<lambda>item. ToNumber J (metric_field key item)) filtered)"

section \<open>Chart range and axis labels\<close>

record chart_range =
  min_val :: jsnum
  max_val :: jsnum
  current :: jsnum
  actualMin :: jsnum
  actualMax :: jsnum

definition zero_range :: chart_range where
  "zero_range = \<lparr>min_val = Fin 0, max_val = Fin 0, current = Fin 0, actualMin = Fin 0, actualMax = Fin 0\<rparr>"

text \<open>\<open>n || 0\<close> on a number: zero and \<open>NaN\<close> are falsy.\<close>

fun num_or_zero :: "jsnum \<Rightarrow> jsnum" where
  "num_or_zero (Fin x) = (if x \<noteq> 0 then Fin x else Fin 0)"
| "num_or_zero NaN = Fin 0"

fun num_min2 :: "jsnum \<Rightarrow> jsnum \<Rightarrow> jsnum" where
  "num_min2 (Fin x) (Fin y) = Fin (min x y)"
| "num_min2 _ _ = NaN"

fun num_max2 :: "jsnum \<Rightarrow> jsnum \<Rightarrow> jsnum" where
  "num_max2 (Fin x) (Fin y) = Fin (max x y)"
| "num_max2 _ _ = NaN"

text \<open>
  \<open>Math.min(...values)\<close> and \<open>Math.max(...values)\<close>. On no arguments they are the
  infinities, which the number model lacks; \<open>chartRange\<close> calls them on a non-empty list
  only.
\<close>

fun Math_min :: "jsnum list \<Rightarrow> jsnum" where
  "Math_min [] = NaN"
| "Math_min [x] = x"
| "Math_min (x # y # ys) = num_min2 x (Math_min (y # ys))"

fun Math_max :: "jsnum list \<Rightarrow> jsnum" where
  "Math_max [] = NaN"
| "Math_max [x] = x"
| "Math_max (x # y # ys) = num_max2 x (Math_max (y # ys))"

text \<open>The literal \<open>0.1\<close> is the double nearest to one tenth.\<close>

definition chartRange :: "builtins \<Rightarrow> metric_key \<Rightarrow> HistoricoItem list \<Rightarrow> chart_range" where
  "chartRange J key filtered =
     (if length filtered = 0 then zero_range
      else
        let values = filter (\<lambda>v. \<not> isNaN v)
                       (map (\<lambda>item. num_or_zero (ToNumber J (metric_field key item))) filtered)
        in if length values = 0 then zero_range
           else
             let mn = Math_min values;
                 mx = Math_max values;
                 cur = last values;
                 range = fl_sub mx mn;
                 margin = fl_mul range (Fin (fl (1 / 10)))
             in \<lparr>min_val = fl_sub mn margin, max_val = fl_add mx margin, current = cur,
                 actualMin = mn, actualMax = mx\<rparr>)"

text \<open>\<open>Math.round\<close>: the nearest integer, a half going up; the result is exact.\<close>

fun Math_round :: "jsnum \<Rightarrow> jsnum" where
  "Math_round (Fin x) = Fin (of_int \<lfloor>x + 1 / 2\<rfloor>)"
| "Math_round NaN = NaN"

fun num_toFixed :: "builtins \<Rightarrow> nat \<Rightarrow> jsnum \<Rightarrow> string" where
  "num_toFixed J d (Fin x) = toFixed J d x"
| "num_toFixed J d NaN = ''NaN''"

fun num_ToString :: "builtins \<Rightarrow> jsnum \<Rightarrow> string" where
  "num_ToString J (Fin x) = NumberToString J x"
| "num_ToString J NaN = ''NaN''"

text \<open>The degree sign (U+00B0) of the temperature label.\<close>

definition degree_sign :: char where
  "degree_sign = CHR 0xB0"

definition formatLabel :: "builtins \<Rightarrow> metric_key \<Rightarrow> jsnum \<Rightarrow> string" where
  "formatLabel J key v =
     (if key = Temperatura then num_toFixed J 1 v @ [degree_sign] @ ''C''
      else if key = Umidade then num_ToString J (Math_round v) @ ''%''
      else if key = Luminosidade then num_ToString J (Math_round v) @ ''LUX''
      else num_ToString J (Math_round v) @ ''PPM'')"

text \<open>
  The loop \<open>for (let i = steps; i >= 0; i--)\<close>, pushing the label of
  \<open>min + (range * i) / steps\<close> in each round.
\<close>

fun labels_loop :: "builtins \<Rightarrow> metric_key \<Rightarrow> jsnum \<Rightarrow> jsnum \<Rightarrow> nat \<Rightarrow> nat \<Rightarrow> string list" where
  "labels_loop J key mn rangeY steps 0 =
     [formatLabel J key (fl_add mn (fl_div (fl_mul rangeY (Fin 0)) (Fin (real steps))))]"
| "labels_loop J key mn rangeY steps (Suc i) =
     formatLabel J key (fl_add mn (fl_div (fl_mul rangeY (Fin (real (Suc i)))) (Fin (real steps))))
       # labels_loop J key mn rangeY steps i"

definition generateYAxisLabels :: "builtins \<Rightarrow> metric_key \<Rightarrow> HistoricoItem list \<Rightarrow> string list" where
  "generateYAxisLabels J key filtered =
     (if length filtered = 0 then [[], [], [], [], []]
      else
        let r = chartRange J key filtered;
            mn = min_val r;
            mx = max_val r;
            range = fl_sub mx mn;
            steps = 4
        in labels_loop J key mn range steps steps)"

section \<open>Actuator states\<close>

text \<open>
  The actuator node as the screens read it. The field \<open>umidificador\<close> of the source is
  \<open>umidificador_key\<close> here, the name \<open>umidificador\<close> being the derived state below.
  \<open>Undefined\<close> is an absent key.
\<close>

record Atuadores =
  rele1 :: jsval
  rele2 :: jsval
  rele3 :: jsval
  rele4 :: jsval
  umidificador_key :: jsval

record display =
  label :: string
  color :: string

definition defaultAtuadores :: Atuadores where
  "defaultAtuadores =
     \<lparr>rele1 = JBool False, rele2 = JBool False, rele3 = JBool False, rele4 = JBool False,
      umidificador_key = JBool False\<rparr>"

text \<open>\<open>{...defaultAtuadores, ...firebaseData.atuadores}\<close>: a key that is present wins.\<close>

definition spread_field :: "jsval \<Rightarrow> jsval \<Rightarrow> jsval" where
  "spread_field dflt v = (if v = Undefined then dflt else v)"

definition processAtuadores :: "Atuadores \<Rightarrow> Atuadores" where
  "processAtuadores a =
     \<lparr>rele1 = spread_field (rele1 defaultAtuadores) (rele1 a),
      rele2 = spread_field (rele2 defaultAtuadores) (rele2 a),
      rele3 = spread_field (rele3 defaultAtuadores) (rele3 a),
      rele4 = spread_field (rele4 defaultAtuadores) (rele4 a),
      umidificador_key = spread_field (umidificador_key defaultAtuadores) (umidificador_key a)\<rparr>"

text \<open>\<open>a ?? b\<close>.\<close>

definition nullish_coalesce :: "jsval \<Rightarrow> jsval \<Rightarrow> jsval" where
  "nullish_coalesce a b = (if is_nullish a then b else a)"

text \<open>
  The derivations of \<open>estado_estufa.tsx\<close>. The argument is \<open>data?.atuadores\<close>, \<open>None\<close> when
  there is no data yet; the node this screen stores always has \<open>atuadores\<close>, merged with
  the defaults.
\<close>

definition climatizador :: "Atuadores option \<Rightarrow> display" where
  "climatizador atuadores =
     (case atuadores of
        None \<Rightarrow> \<lparr>label = ''--'', color = ''#ccc''\<rparr>
      | Some a \<Rightarrow>
          let rele1State = ToBoolean (rele1 a);
              rele2State = ToBoolean (rele2 a)
          in if \<not> rele1State then \<lparr>label = ''OFF'', color = ''#d3d3d3''\<rparr>
             else if rele2State \<and> rele1State then \<lparr>label = ''Aquecendo'', color = ''#FFA500''\<rparr>
             else \<lparr>label = ''Resfriando'', color = ''#B2F0F4''\<rparr>)"

definition umidificador :: "Atuadores option \<Rightarrow> display" where
  "umidificador atuadores =
     (case atuadores of
        None \<Rightarrow> \<lparr>label = ''--'', color = ''#ccc''\<rparr>
      | Some a \<Rightarrow>
          let umidificadorState = nullish_coalesce (umidificador_key a) (rele3 a);
              state = ToBoolean umidificadorState
          in if state then \<lparr>label = ''ON'', color = ''#00FF00''\<rparr>
             else \<lparr>label = ''OFF'', color = ''#d3d3d3''\<rparr>)"

text \<open>
  The same derivations in the older screen (\<open>src/screens/EstadoEstufa/index.tsx\<close>), which
  reads the node as it comes. The argument is \<open>data\<close>: \<open>None\<close> when there is no data yet,
  \<open>Some None\<close> a node without \<open>atuadores\<close>, where reading a field of \<open>data.atuadores\<close>
  raises.
\<close>

datatype js_error = TypeError

definition climatizador_index :: "Atuadores option option \<Rightarrow> js_error + display" where
  "climatizador_index data =
     (case data of
        None \<Rightarrow> Inr \<lparr>label = ''--'', color = ''#ccc''\<rparr>
      | Some None \<Rightarrow> Inl TypeError
      | Some (Some a) \<Rightarrow>
          if \<not> ToBoolean (rele1 a) then Inr \<lparr>label = ''OFF'', color = ''#d3d3d3''\<rparr>
          else if ToBoolean (rele2 a) \<and> ToBoolean (rele1 a)
               then Inr \<lparr>label = ''Aquecendo'', color = ''#FFA500''\<rparr>
          else Inr \<lparr>label = ''Resfriando'', color = ''#B2F0F4''\<rparr>)"

definition umidificador_index :: "Atuadores option option \<Rightarrow> js_error + display" where
  "umidificador_index data =
     (case data of
        None \<Rightarrow> Inr \<lparr>label = ''--'', color = ''#ccc''\<rparr>
      | Some None \<Rightarrow> Inl TypeError
      | Some (Some a) \<Rightarrow>
          let umidificadorState = nullish_coalesce (umidificador_key a) (rele3 a)
          in if ToBoolean umidificadorState then Inr \<lparr>label = ''ON'', color = ''#00FF00''\<rparr>
             else Inr \<lparr>label = ''OFF'', color = ''#d3d3d3''\<rparr>)"

section \<open>Notions used to state the properties\<close>

fun the_fin :: "jsnum \<Rightarrow> real" where
  "the_fin (Fin x) = x"
| "the_fin NaN = 0"

text \<open>The capture time of a record.\<close>

definition time_of :: "builtins \<Rightarrow> HistoricoItem \<Rightarrow> real" where
  "time_of J item = the_fin (Date_getTime J (dataHora item))"

text \<open>
  The value of a record for a metric, field by field, and the numbers \<open>chartRange\<close> works
  on: the numeric reading of that value, zero when it has none.
\<close>

definition selected :: "metric_key \<Rightarrow> HistoricoItem \<Rightarrow> jsval" where
  "selected key item =
     (case key of
        Temperatura \<Rightarrow> temperatura item
      | Umidade \<Rightarrow> umidade item
      | Luminosidade \<Rightarrow> luminosidade item
      | CO2 \<Rightarrow> co2 item
      | CO \<Rightarrow> co item)"

definition metric_values :: "builtins \<Rightarrow> metric_key \<Rightarrow> HistoricoItem list \<Rightarrow> real list" where
  "metric_values J key filtered =
     map (\<lambda>item. the_fin (num_or_zero (ToNumber J (selected key item)))) filtered"

text \<open>
  An instance of the library functions, for running the model on the examples below. It
  agrees with the language on the arguments used there: strings that are not numbers,
  integers printed in decimal, \<open>toFixed\<close> (which rounds the exact value of the double, a
  half going up in magnitude) below \<open>10 ^ 21\<close>, and the capture times of the examples.
\<close>

definition digit_char :: "nat \<Rightarrow> char" where
  "digit_char n = ''0123456789'' ! n"

fun digits :: "nat \<Rightarrow> string" where
  "digits n = (if n < 10 then [digit_char n] else digits (n div 10) @ [digit_char (n mod 10)])"

declare digits.simps [simp del]

definition show_int :: "int \<Rightarrow> string" where
  "show_int i = (if i < 0 then ''-'' @ digits (nat (- i)) else digits (nat i))"

definition sample_toFixed :: "nat \<Rightarrow> real \<Rightarrow> string" where
  "sample_toFixed d x =
     (let n = nat \<lfloor>\<bar>x\<bar> * 10 ^ d + 1 / 2\<rfloor>;
          frac = digits (n mod 10 ^ d);
          s = digits (n div 10 ^ d) @
                (if d = 0 then [] else ''.'' @ replicate (d - length frac) (CHR ''0'') @ frac)
      in if x < 0 then ''-'' @ s else s)"

definition digit_val :: "char \<Rightarrow> nat option" where
  "digit_val c = map_of (zip ''0123456789'' [0, 1, 2, 3, 4, 5, 6, 7, 8, 9]) c"

fun parse_digits :: "nat \<Rightarrow> string \<Rightarrow> jsnum" where
  "parse_digits acc [] = Fin (real acc)"
| "parse_digits acc (c # cs) =
     (case digit_val c of None \<Rightarrow> NaN | Some d \<Rightarrow> parse_digits (10 * acc + d) cs)"

definition sample_Date_parse :: "string \<Rightarrow> jsnum" where
  "sample_Date_parse s =
     (if s = ''2024-01-01T10:00:00.000Z'' then Fin 1704103200000
      else if s = ''2024-01-01T10:05:00.000Z'' then Fin 1704103500000
      else if s = ''2024-01-01T10:10:00.000Z'' then Fin 1704103800000
      else NaN)"

definition sample_builtins :: builtins where
  "sample_builtins =
     \<lparr>StringToNumber = parse_digits 0, Date_parse = sample_Date_parse,
      toFixed = sample_toFixed, NumberToString = (\<lambda>x. show_int \<lfloor>x\<rfloor>)\<rparr>"

text \<open>A history record with the given capture time, temperature, humidity and CO reading.\<close>

definition sample_item :: "string \<Rightarrow> jsval \<Rightarrow> jsval \<Rightarrow> jsval \<Rightarrow> HistoricoItem" where
  "sample_item d t u c =
     \<lparr>co = c, co2 = Num 400, dataHora = Str d, luminosidade = Num 500, temperatura = t,
      timestamp = [], tvocs = Undefined, umidade = u\<rparr>"

text \<open>
  The window of the history example: temperatures 20, null and 22 at increasing capture
  times.
\<close>

definition sample_entries :: "(string \<times> HistoricoItem) list" where
  "sample_entries =
     [(''-N1'', sample_item ''2024-01-01T10:00:00.000Z'' (Num 20) (Num 85) (Num 1)),
      (''-N2'', sample_item ''2024-01-01T10:05:00.000Z'' Null (Num 80) (Num 4)),
      (''-N3'', sample_item ''2024-01-01T10:10:00.000Z'' (Num 22) (Num 75) (Num 9))]"

text \<open>A window whose keys do not follow the capture times, with a humidity that is no number.\<close>

definition sample_entries_unordered :: "(string \<times> HistoricoItem) list" where
  "sample_entries_unordered =
     [(''-N1'', sample_item ''2024-01-01T10:10:00.000Z'' (Num 22) (Num 70) (Num 9)),
      (''-N2'', sample_item ''2024-01-01T10:00:00.000Z'' (Num 20) (Str ''n/a'') (Num 1)),
      (''-N3'', sample_item ''2024-01-01T10:05:00.000Z'' (Num 21) (Num 60) (Num 4))]"

text \<open>A window with a capture time that does not parse.\<close>

definition sample_entries_invalid :: "(string \<times> HistoricoItem) list" where
  "sample_entries_invalid =
     [(''-A'', sample_item ''2024-01-01T10:10:00.000Z'' (Num 22) (Num 70) (Num 5)),
      (''-B'', sample_item ''invalid'' (Num 21) (Num 60) (Num 6)),
      (''-C'', sample_item ''2024-01-01T10:00:00.000Z'' (Num 20) (Num 85) (Num 7))]"

text \<open>A monitor that was started at time 1000 on a first mount.\<close>

definition sample_monitor :: monitor where
  "sample_monitor =
     \<lparr>isOnline = True, lastHeartbeatRef = Num 1000, initialLoadRef = True,
      heartbeatIntervalRef = Some False, setIsOnline_calls = [True]\<rparr>"

section \<open>Properties of the heartbeat monitor\<close>

lemma lastHeartbeatRef_setIsOnline [simp]:
  "lastHeartbeatRef (setIsOnline v m) = lastHeartbeatRef m"
  by (simp add: setIsOnline_def)

lemma lastHeartbeatRef_checkHeartbeatStatus [simp]:
  "lastHeartbeatRef (checkHeartbeatStatus J seen currentTime m) = lastHeartbeatRef m"
  by (simp add: checkHeartbeatStatus_def Let_def)

lemma heartbeatIntervalRef_checkHeartbeatStatus [simp]:
  "heartbeatIntervalRef (checkHeartbeatStatus J seen currentTime m) = heartbeatIntervalRef m"
  by (simp add: checkHeartbeatStatus_def setIsOnline_def Let_def)

lemma js_gt_Num [simp]: "js_gt J (Num t) (Num r) = (r < t)"
  by (simp add: js_gt_def)

lemma sample_monitor_started:
  "sample_monitor = heartbeatEffect (Some ''IFUNGI-001'') 1000 initial_monitor"
  by (simp add: sample_monitor_def heartbeatEffect_def initial_monitor_def
      startHeartbeatMonitoring_def setIsOnline_def)

text \<open>
  An evaluation that reads the current state leaves \<open>isOnline\<close> equal to the comparison of
  the elapsed time with the timeout, in and out of the grace period: this is what the
  manual check does.
\<close>

lemma forceStatusCheck_isOnline:
  "isOnline (forceStatusCheck J currentTime m)
     = num_lt (num_sub (Fin currentTime) (ToNumber J (lastHeartbeatRef m))) (Fin HEARTBEAT_TIMEOUT)"
  by (cases "ToNumber J (lastHeartbeatRef m)")
     (auto simp: forceStatusCheck_def checkHeartbeatStatus_def Let_def setIsOnline_def
        INITIAL_GRACE_PERIOD_def HEARTBEAT_TIMEOUT_def)

text \<open>
  An evaluation whose closure read \<open>False\<close> never turns an online monitor offline: when it
  computes \<open>False\<close> it sees no change and does not call the setter.
\<close>

lemma checkHeartbeatStatus_stale_False:
  "isOnline m \<Longrightarrow> isOnline (checkHeartbeatStatus J False currentTime m)"
  by (simp add: checkHeartbeatStatus_def Let_def setIsOnline_def)

lemma intervalTick_stale_False:
  assumes "isOnline m" and "heartbeatIntervalRef m = Some False"
  shows "isOnline (intervalTick J currentTime m)
       \<and> heartbeatIntervalRef (intervalTick J currentTime m) = Some False"
  using assms by (simp add: intervalTick_def checkHeartbeatStatus_stale_False)

lemma fold_intervalTick_stale_False:
  assumes "isOnline m" and "heartbeatIntervalRef m = Some False"
  shows "isOnline (fold (intervalTick J) ts m)"
  using assms
proof (induction ts arbitrary: m)
  case Nil
  then show ?case by simp
next
  case (Cons t ts)
  then show ?case using intervalTick_stale_False[of m J t] by simp
qed

text \<open>
  C1. After the screen is mounted and the monitor started at \<open>t0\<close> with no signal, the
  claim is that an evaluation reports online while less than 25000 ms have passed and
  offline from then on. The interval registered at the start belongs to a render in which
  \<open>isOnline\<close> was \<open>False\<close>, so its evaluations never report offline: after any poll ticks at
  any times the state is still online. In particular the tick 26000 ms after a start at
  time 1000 ends the grace period, computes offline, and calls the setter not once more:
  the only call on record is the \<open>setIsOnline(true)\<close> of the start.
\<close>

theorem interval_never_reports_offline:
  "isOnline (fold (intervalTick J) ts (heartbeatEffect (Some ''IFUNGI-001'') t0 initial_monitor))
   \<and> isOnline (intervalTick J 27000 (heartbeatEffect (Some ''IFUNGI-001'') 1000 initial_monitor))
   \<and> setIsOnline_calls
        (intervalTick J 27000 (heartbeatEffect (Some ''IFUNGI-001'') 1000 initial_monitor)) = [True]
   \<and> \<not> initialLoadRef
        (intervalTick J 27000 (heartbeatEffect (Some ''IFUNGI-001'') 1000 initial_monitor))"
proof -
  have 1: "isOnline (heartbeatEffect (Some ''IFUNGI-001'') t initial_monitor)" for t
    by (simp add: heartbeatEffect_def initial_monitor_def startHeartbeatMonitoring_def
        setIsOnline_def)
  have 2: "heartbeatIntervalRef (heartbeatEffect (Some ''IFUNGI-001'') t initial_monitor) = Some False"
    for t
    by (simp add: heartbeatEffect_def initial_monitor_def startHeartbeatMonitoring_def
        setIsOnline_def)
  have a: "isOnline (fold (intervalTick J) ts (heartbeatEffect (Some ''IFUNGI-001'') t0 initial_monitor))"
    using 1 2 by (rule fold_intervalTick_stale_False)
  have b: "isOnline (intervalTick J 27000 (heartbeatEffect (Some ''IFUNGI-001'') 1000 initial_monitor))"
    using intervalTick_stale_False[OF 1 2] by simp
  have c: "setIsOnline_calls
        (intervalTick J 27000 (heartbeatEffect (Some ''IFUNGI-001'') 1000 initial_monitor)) = [True]
      \<and> \<not> initialLoadRef
        (intervalTick J 27000 (heartbeatEffect (Some ''IFUNGI-001'') 1000 initial_monitor))"
    by (simp add: intervalTick_def heartbeatEffect_def initial_monitor_def
        startHeartbeatMonitoring_def setIsOnline_def checkHeartbeatStatus_def Let_def
        INITIAL_GRACE_PERIOD_def HEARTBEAT_TIMEOUT_def)
  show ?thesis using a b c by simp
qed

lemma Max_insert_max:
  fixes r :: real
  assumes "finite S"
  shows "Max (insert (max r t) S) = Max (insert r (insert t S))"
proof (cases "S = {}")
  case True
  then show ?thesis by (simp add: max.commute)
next
  case False
  then show ?thesis using assms by (simp add: max.assoc)
qed

lemma updateHeartbeat_Num:
  assumes "lastHeartbeatRef m = Num r" and "0 \<le> r"
  shows "lastHeartbeatRef (updateHeartbeat J seen currentTime (Num t) m) = Num (max r t)"
  using assms by (auto simp: updateHeartbeat_def)

lemma updateHeartbeats_Num:
  assumes "lastHeartbeatRef m = Num r" and "0 \<le> r"
  shows "lastHeartbeatRef (updateHeartbeats J seen (map (\<lambda>(c, t). (c, Num t)) sigs) m)
           = Num (Max (insert r (snd ` set sigs)))"
  using assms
proof (induction sigs arbitrary: m r)
  case Nil
  then show ?case by simp
next
  case (Cons a sigs)
  obtain c t where a: "a = (c, t)" by (cases a)
  let ?m' = "updateHeartbeat J seen c (Num t) m"
  have 1: "lastHeartbeatRef ?m' = Num (max r t)"
    using Cons.prems by (rule updateHeartbeat_Num)
  have 2: "0 \<le> max r t"
    using Cons.prems by simp
  have "Max (insert (max r t) (snd ` set sigs)) = Max (insert r (snd ` set (a # sigs)))"
    unfolding a by (simp add: Max_insert_max)
  then show ?case using Cons.IH[OF 1 2] by (simp add: a)
qed

lemma Max_sorted_last:
  fixes xs :: "real list"
  assumes "sorted xs" and "xs \<noteq> []" and "r \<le> last xs"
  shows "Max (insert r (set xs)) = last xs"
proof (rule Max_eqI)
  show "finite (insert r (set xs))" by simp
  show "last xs \<in> insert r (set xs)" using assms(2) by simp
  fix y assume "y \<in> insert r (set xs)"
  then show "y \<le> last xs"
    using assms by (auto simp: in_set_conv_nth last_conv_nth intro!: sorted_nth_mono)
qed

text \<open>
  C2. Let the stored timestamp be a number \<open>r\<close>, not negative (it starts at 0 and is only
  ever set to the clock or to a larger signal). A numeric signal \<open>t > r\<close> is stored; one with
  \<open>t \<le> r\<close> changes nothing in the state at all. After any sequence of numeric signals the
  stored timestamp is the maximum of \<open>r\<close> and the signals, so it never decreases, and for a
  non-decreasing sequence that reaches \<open>r\<close> it is the last, largest signal.
\<close>

theorem updateHeartbeat_monotonic:
  assumes "lastHeartbeatRef m = Num r" and "0 \<le> r"
  shows "(r < t \<longrightarrow> lastHeartbeatRef (updateHeartbeat J seen currentTime (Num t) m) = Num t)
       \<and> (t \<le> r \<longrightarrow> updateHeartbeat J seen currentTime (Num t) m = m)
       \<and> lastHeartbeatRef (updateHeartbeats J seen (map (\<lambda>(c, t). (c, Num t)) sigs) m)
           = Num (Max (insert r (snd ` set sigs)))
       \<and> r \<le> Max (insert r (snd ` set sigs))
       \<and> (sigs \<noteq> [] \<and> sorted (map snd sigs) \<and> r \<le> snd (last sigs) \<longrightarrow>
            lastHeartbeatRef (updateHeartbeats J seen (map (\<lambda>(c, t). (c, Num t)) sigs) m)
              = Num (snd (last sigs)))"
proof -
  have a: "r < t \<longrightarrow> lastHeartbeatRef (updateHeartbeat J seen currentTime (Num t) m) = Num t"
    using updateHeartbeat_Num[OF assms, of J seen currentTime t] by (simp add: max_def)
  have b: "t \<le> r \<longrightarrow> updateHeartbeat J seen currentTime (Num t) m = m"
    using assms by (simp add: updateHeartbeat_def)
  note c = updateHeartbeats_Num[OF assms, of J seen sigs]
  have d: "r \<le> Max (insert r (snd ` set sigs))"
    by simp
  have e: "Max (insert r (snd ` set sigs)) = snd (last sigs)"
    if "sigs \<noteq> []" "sorted (map snd sigs)" "r \<le> snd (last sigs)"
    using Max_sorted_last[of "map snd sigs" r] that by (simp add: last_map)
  show ?thesis using a b c d e by simp
qed

theorem updateHeartbeat_monotonic_witness:
  "lastHeartbeatRef (updateHeartbeat sample_builtins False 2000 (Num 1500) sample_monitor) = Num 1500
   \<and> updateHeartbeat sample_builtins False 2000 (Num 900) sample_monitor = sample_monitor
   \<and> lastHeartbeatRef (updateHeartbeats sample_builtins False
        [(2000, Num 1500), (3000, Num 1200), (4000, Num 1800)] sample_monitor) = Num 1800
   \<and> lastHeartbeatRef (updateHeartbeats sample_builtins False
        [(2000, Num 1500), (3000, Num 1500), (4000, Num 1800)] sample_monitor) = Num 1800"
proof -
  have h: "lastHeartbeatRef sample_monitor = Num 1000" "(0::real) \<le> 1000"
    by (simp_all add: sample_monitor_def)
  show ?thesis
    using updateHeartbeat_monotonic[OF h, of 1500 sample_builtins False 2000
            "[(2000, 1500), (3000, 1200), (4000, 1800)]"]
          updateHeartbeat_monotonic[OF h, of 900 sample_builtins False 2000
            "[(2000, 1500), (3000, 1500), (4000, 1800)]"]
    by simp
qed

text \<open>
  C3. The check of the simpler screen is true exactly when the recorded heartbeat is
  truthy (a number other than zero; absent, null and \<open>NaN\<close> are not) and less than 45000 ms
  old; it has no grace period. The richer monitor compares with 25000 ms: 30000 ms after
  the last heartbeat the simpler check still says online where the richer evaluation says
  offline.
\<close>

theorem checkOnlineStatus_threshold:
  "checkOnlineStatus J currentTime (Num t) = (t \<noteq> 0 \<and> currentTime - t < 45000)
   \<and> \<not> checkOnlineStatus J currentTime Undefined
   \<and> \<not> checkOnlineStatus J currentTime Null
   \<and> \<not> checkOnlineStatus J currentTime (JNum NaN)
   \<and> HEARTBEAT_TIMEOUT = 25000
   \<and> isOnline (forceStatusCheck J currentTime (m\<lparr>lastHeartbeatRef := Num t\<rparr>))
       = (currentTime - t < 25000)
   \<and> checkOnlineStatus J 31000 (Num 1000)
   \<and> \<not> isOnline (forceStatusCheck J 31000 (m\<lparr>lastHeartbeatRef := Num 1000\<rparr>))"
  by (simp add: checkOnlineStatus_def forceStatusCheck_isOnline HEARTBEAT_TIMEOUT_def)






section \<open>Properties of the rounding\<close>

text \<open>
  \<open>ilog2\<close> is the binary exponent, \<open>fl\<close> leaves a double as it is, and it moves a number by
  half the spacing of the doubles around it at most.
\<close>

lemma pow2_powr: "pow2 e = 2 powr (of_int e)"
proof (cases "0 \<le> e")
  case True
  then have "(2::real) ^ nat e = 2 powr (of_int e)"
    by (simp add: powr_realpow[symmetric])
  then show ?thesis using True by (simp add: pow2_def)
next
  case False
  then have "(2::real) ^ nat (- e) = 2 powr (of_int (- e))"
    by (simp add: powr_realpow[symmetric])
  then show ?thesis using False by (simp add: pow2_def powr_minus divide_inverse)
qed

lemma pow2_pos [simp]: "0 < pow2 e"
  by (simp add: pow2_powr)

lemma pow2_nonzero [simp]: "pow2 e \<noteq> 0"
  using pow2_pos[of e] by linarith

lemma abs_pow2 [simp]: "\<bar>pow2 e\<bar> = pow2 e"
  using pow2_pos[of e] by linarith

lemma pow2_add: "pow2 (i + j) = pow2 i * pow2 j"
  by (simp add: pow2_powr powr_add)

lemma pow2_less_iff [simp]: "pow2 i < pow2 j \<longleftrightarrow> i < j"
  by (simp add: pow2_powr)

lemma pow2_le_iff [simp]: "pow2 i \<le> pow2 j \<longleftrightarrow> i \<le> j"
  by (simp add: pow2_powr)

lemma pow2_nat: "pow2 (int k) = 2 ^ k"
  by (simp add: pow2_def)

lemma bit_length_bounds:
  "0 < n \<Longrightarrow> 2 ^ (bit_length n - 1) \<le> n \<and> n < 2 ^ bit_length n"
proof (induction n rule: bit_length.induct)
  case (1 n)
  show ?case
  proof (cases "n div 2 \<le> 0")
    case True
    then have "n = 1" using "1.prems" by linarith
    then show ?thesis by (simp add: bit_length.simps[of 1] bit_length.simps[of 0])
  next
    case False
    then have IH: "2 ^ (bit_length (n div 2) - 1) \<le> n div 2 \<and> n div 2 < 2 ^ bit_length (n div 2)"
      using "1.IH" "1.prems" by simp
    have pos: "0 < bit_length (n div 2)"
      using False by (simp add: bit_length.simps[of "n div 2"])
    have bl: "bit_length n = Suc (bit_length (n div 2))"
      using "1.prems" by (simp add: bit_length.simps[of n])
    have a: "2 ^ bit_length (n div 2) \<le> n"
    proof -
      have "2 * 2 ^ (bit_length (n div 2) - 1) \<le> 2 * (n div 2)" using IH by simp
      moreover have "2 * (2::int) ^ (bit_length (n div 2) - 1) = 2 ^ bit_length (n div 2)"
        using pos by (cases "bit_length (n div 2)") simp_all
      moreover have "2 * (n div 2) \<le> n" by simp
      ultimately show ?thesis by linarith
    qed
    have b: "n < 2 * 2 ^ bit_length (n div 2)"
    proof -
      have "n div 2 + 1 \<le> 2 ^ bit_length (n div 2)" using IH by simp
      then have "2 * (n div 2) + 2 \<le> 2 * 2 ^ bit_length (n div 2)" by simp
      moreover have "n < 2 * (n div 2) + 2" by linarith
      ultimately show ?thesis by linarith
    qed
    show ?thesis using a b by (simp add: bl)
  qed
qed

lemma ilog2_bounds:
  assumes "0 < a"
  shows "pow2 (ilog2 a) \<le> a \<and> a < pow2 (ilog2 a + 1)"
proof (cases "1 \<le> a")
  case True
  let ?n = "\<lfloor>a\<rfloor>"
  have n: "0 < ?n" using True by simp
  note b = bit_length_bounds[OF n]
  have pos: "0 < bit_length ?n" using n by (simp add: bit_length.simps[of ?n])
  have e: "ilog2 a = int (bit_length ?n - 1)" "ilog2 a + 1 = int (bit_length ?n)"
    using True pos by (simp_all add: ilog2_def)
  have "(2::real) ^ (bit_length ?n - 1) \<le> of_int ?n"
    using b by (metis of_int_le_iff of_int_numeral of_int_power)
  then have lo: "2 ^ (bit_length ?n - 1) \<le> a" by linarith
  have "?n + 1 \<le> 2 ^ bit_length ?n" using b by simp
  then have "of_int (?n + 1) \<le> (2::real) ^ bit_length ?n"
    by (metis of_int_le_iff of_int_numeral of_int_power)
  then have hi: "a < 2 ^ bit_length ?n" by linarith
  have p1: "pow2 (ilog2 a) = 2 ^ (bit_length ?n - 1)"
    by (simp only: e(1) pow2_nat)
  have p2: "pow2 (ilog2 a + 1) = 2 ^ bit_length ?n"
    by (simp only: e(2) pow2_nat)
  show ?thesis unfolding p1 p2 using lo hi by simp
next
  case False
  let ?c = "\<lceil>1 / a\<rceil>"
  have y: "1 < 1 / a" using False assms by simp
  then have c: "0 < ?c - 1" by linarith
  note b = bit_length_bounds[OF c]
  let ?m = "bit_length (?c - 1)"
  have pos: "0 < ?m" using c by (simp add: bit_length.simps[of "?c - 1"])
  have e: "ilog2 a = - int ?m" using False by (simp add: ilog2_def)
  have "of_int ?c \<le> (2::real) ^ ?m"
  proof -
    have "?c \<le> 2 ^ ?m" using b by simp
    then show ?thesis by (metis of_int_le_iff of_int_numeral of_int_power)
  qed
  then have "1 / a \<le> 2 ^ ?m" by linarith
  then have lo: "1 / 2 ^ ?m \<le> a"
    using assms by (simp add: field_simps)
  have "(2::real) ^ (?m - 1) \<le> of_int (?c - 1)"
    using b by (metis of_int_le_iff of_int_numeral of_int_power)
  moreover have "of_int (?c - 1) < 1 / a" by linarith
  ultimately have "2 ^ (?m - 1) < 1 / a" by linarith
  then have hi: "a < 1 / 2 ^ (?m - 1)"
    using assms by (simp add: field_simps)
  have p1: "pow2 (- int ?m) = 1 / 2 ^ ?m"
    using pos by (simp add: pow2_def)
  have p2: "pow2 (- int ?m + 1) = 1 / 2 ^ (?m - 1)"
    using pos by (cases ?m) (simp_all add: pow2_def)
  show ?thesis unfolding e p1 p2 using lo hi by simp
qed


lemma ilog2_unique:
  assumes "pow2 L \<le> a" and "a < pow2 (L + 1)"
  shows "ilog2 a = L"
proof -
  have "0 < a" using assms(1) pow2_pos[of L] by linarith
  note b = ilog2_bounds[OF this]
  have "pow2 L < pow2 (ilog2 a + 1)" using assms(1) b by linarith
  moreover have "pow2 (ilog2 a) < pow2 (L + 1)" using assms(2) b by linarith
  ultimately show ?thesis by simp
qed

lemma ilog2_floor_log: "0 < a \<Longrightarrow> ilog2 a = \<lfloor>log 2 a\<rfloor>"
proof -
  assume a: "0 < a"
  note b = ilog2_bounds[OF a]
  have 1: "of_int (ilog2 a) \<le> log 2 a"
    using b a by (simp add: pow2_powr le_log_iff)
  have 2: "log 2 a < of_int (ilog2 a + 1)"
    using b a by (simp add: pow2_powr log_less_iff)
  show ?thesis using 1 2 by linarith
qed

lemma round_half_even_of_int [simp]: "round_half_even (of_int n) = n"
  by (simp add: round_half_even_def)





lemma fl_zero [simp]: "fl 0 = 0"
  by (simp add: fl_def)




lemma fl_error:
  "\<bar>fl x - x\<bar> \<le> max (\<bar>x\<bar> / 2 ^ 53) (1 / 2 ^ 1075)"
proof (cases "x = 0")
  case True
  then show ?thesis by simp
next
  case False
  define a where "a = \<bar>x\<bar>"
  define e where "e = max (ilog2 a - 52) (- 1074)"
  define q where "q = a / pow2 e"
  have apos: "0 < a" using False by (simp add: a_def)
  have flx: "fl x = sgn x * (of_int (round_half_even q) * pow2 e)"
    using False by (simp add: fl_def Let_def a_def e_def q_def)
  have x: "x = sgn x * (q * pow2 e)"
    by (simp add: q_def a_def sgn_mult_abs)
  have "fl x - x = sgn x * ((of_int (round_half_even q) - q) * pow2 e)"
    by (subst (2) x, subst flx) (simp add: algebra_simps)
  then have "\<bar>fl x - x\<bar> = \<bar>of_int (round_half_even q) - q\<bar> * pow2 e"
    using False pow2_pos[of e] by (simp add: abs_mult abs_sgn_eq)
  moreover have "\<bar>of_int (round_half_even q) - q\<bar> \<le> 1 / 2"
    by (simp add: round_half_even_def Let_def)
  ultimately have h: "\<bar>fl x - x\<bar> \<le> pow2 e / 2"
    by (simp add: mult_right_mono)
  have "pow2 e / 2 \<le> max (a / 2 ^ 53) (1 / 2 ^ 1075)"
  proof (cases "ilog2 a - 52 \<le> - 1074")
    case True
    then have "e = - 1074" by (simp add: e_def)
    then have "pow2 e / 2 = 1 / 2 ^ 1075" by (simp add: pow2_def)
    then show ?thesis by simp
  next
    case False
    then have e: "e = ilog2 a - 52" by (simp add: e_def)
    have "pow2 (ilog2 a) \<le> a" using ilog2_bounds[OF apos] by simp
    moreover have "pow2 (ilog2 a) = pow2 e * 2 ^ 52"
      by (simp add: e pow2_add[symmetric] pow2_nat[of 52, simplified, symmetric])
    ultimately have "pow2 e * 2 ^ 52 \<le> a" by simp
    then have "pow2 e / 2 \<le> a / 2 ^ 53" by (simp add: field_simps)
    then show ?thesis by simp
  qed
  then show ?thesis using h by (simp add: a_def)
qed

section \<open>Properties of the history reducer\<close>

lemma selected_metric_field: "selected key item = metric_field key item"
  by (cases key) (simp_all add: selected_def)

lemma sort_insert_insort_key:
  assumes "\<not> isNaN (Date_getTime J (dataHora x))"
    and "\<forall>y\<in>set ys. \<not> isNaN (Date_getTime J (dataHora y))"
  shows "sort_insert (compareDataHora J) x ys = insort_key (time_of J) x ys"
  using assms
proof (induction ys)
  case Nil
  then show ?case by simp
next
  case (Cons y ys)
  obtain tx where tx: "Date_getTime J (dataHora x) = Fin tx"
    using Cons.prems(1) by (cases "Date_getTime J (dataHora x)") simp_all
  obtain ty where ty: "Date_getTime J (dataHora y) = Fin ty"
    using Cons.prems(2) by (cases "Date_getTime J (dataHora y)") simp_all
  show ?case using Cons by (auto simp: compareDataHora_def time_of_def tx ty)
qed

lemma js_sort_sort_key:
  assumes "\<forall>y\<in>set xs. \<not> isNaN (Date_getTime J (dataHora y))"
  shows "js_sort (compareDataHora J) xs = sort_key (time_of J) xs"
  using assms
proof (induction xs)
  case Nil
  then show ?case by (simp add: js_sort_def)
next
  case (Cons x xs)
  have IH: "foldr (sort_insert (compareDataHora J)) xs [] = sort_key (time_of J) xs"
    using Cons by (simp add: js_sort_def)
  have "sort_insert (compareDataHora J) x (sort_key (time_of J) xs)
          = insort_key (time_of J) x (sort_key (time_of J) xs)"
    using Cons.prems by (intro sort_insert_insort_key) simp_all
  then show ?case by (simp add: js_sort_def IH sort_key_def)
qed

lemma filteredHistorico_filter:
  "filteredHistorico J key xs
     = filter (\<lambda>item. selected key item \<noteq> Undefined \<and> selected key item \<noteq> Null
                     \<and> ToNumber J (selected key item) \<noteq> NaN) xs"
proof -
  have "isNaN n = (n = NaN)" for n
    by (cases n) simp_all
  then show ?thesis
    by (cases xs) (simp_all add: filteredHistorico_def Let_def is_nullish_def selected_metric_field)
qed

lemma reduced_series:
  assumes "\<forall>(k, r)\<in>set entries. \<not> isNaN (Date_getTime J (dataHora r))"
  shows "filteredHistorico J key (loadHistoricoFromFirebase J (Some entries))
           = filter (\<lambda>item. selected key item \<noteq> Undefined \<and> selected key item \<noteq> Null
                           \<and> ToNumber J (selected key item) \<noteq> NaN)
               (sort_key (time_of J) (map (\<lambda>(k, r). r\<lparr>timestamp := k\<rparr>) entries))"
proof -
  let ?w = "map (\<lambda>(k, r). r\<lparr>timestamp := k\<rparr>) entries"
  have valid: "\<forall>y\<in>set ?w. \<not> isNaN (Date_getTime J (dataHora y))"
    using assms by auto
  have load: "loadHistoricoFromFirebase J (Some entries) = sort_key (time_of J) ?w"
    by (simp add: loadHistoricoFromFirebase_def js_sort_sort_key[OF valid])
  show ?thesis by (simp add: load filteredHistorico_filter)
qed

lemma reduced_series_sorted:
  assumes "\<forall>(k, r)\<in>set entries. \<not> isNaN (Date_getTime J (dataHora r))"
  shows "sorted (map (time_of J) (filteredHistorico J key (loadHistoricoFromFirebase J (Some entries))))"
  by (simp add: reduced_series[OF assms] sorted_filter)

text \<open>
  C5, as the code has it. When the capture time of every record of the window is a valid
  date, the reduced series is the window in ascending order of capture time (records with
  equal times in the order of delivery), without the records whose value for the selected
  metric is null, undefined or has no numeric reading, and with every other record kept.
  The value is that of the field the metric names.
\<close>

theorem history_reducer_sorted_filtered:
  assumes "\<forall>(k, r)\<in>set entries. \<not> isNaN (Date_getTime J (dataHora r))"
  shows "filteredHistorico J key (loadHistoricoFromFirebase J (Some entries))
           = filter (\<lambda>item.
                 let v = (case key of
                            Temperatura \<Rightarrow> temperatura item
                          | Umidade \<Rightarrow> umidade item
                          | Luminosidade \<Rightarrow> luminosidade item
                          | CO2 \<Rightarrow> co2 item
                          | CO \<Rightarrow> co item)
                 in v \<noteq> Undefined \<and> v \<noteq> Null \<and> ToNumber J v \<noteq> NaN)
               (sort_key (time_of J) (map (\<lambda>(k, r). r\<lparr>timestamp := k\<rparr>) entries))
         \<and> sorted (map (time_of J)
               (filteredHistorico J key (loadHistoricoFromFirebase J (Some entries))))"
  using reduced_series[OF assms, of key] reduced_series_sorted[OF assms, of key]
  by (simp add: selected_def Let_def)

text \<open>
  The example of the claim: temperatures 20, null and 22 at increasing capture times give
  the two points 20 and 22, in this order. And a window delivered out of order, reduced for
  the humidity: the record without a numeric humidity goes, the other two come out by
  capture time, 60 before 70.
\<close>

theorem history_reducer_sorted_filtered_witness:
  "filteredHistorico sample_builtins Temperatura
       (loadHistoricoFromFirebase sample_builtins (Some sample_entries))
     = [(sample_item ''2024-01-01T10:00:00.000Z'' (Num 20) (Num 85) (Num 1))\<lparr>timestamp := ''-N1''\<rparr>,
        (sample_item ''2024-01-01T10:10:00.000Z'' (Num 22) (Num 75) (Num 9))\<lparr>timestamp := ''-N3''\<rparr>]
   \<and> chartData_data sample_builtins Temperatura
        (filteredHistorico sample_builtins Temperatura
          (loadHistoricoFromFirebase sample_builtins (Some sample_entries)))
     = [Fin 20, Fin 22]
   \<and> filteredHistorico sample_builtins Umidade
       (loadHistoricoFromFirebase sample_builtins (Some sample_entries_unordered))
     = [(sample_item ''2024-01-01T10:05:00.000Z'' (Num 21) (Num 60) (Num 4))\<lparr>timestamp := ''-N3''\<rparr>,
        (sample_item ''2024-01-01T10:10:00.000Z'' (Num 22) (Num 70) (Num 9))\<lparr>timestamp := ''-N1''\<rparr>]
   \<and> chartData_data sample_builtins Umidade
        (filteredHistorico sample_builtins Umidade
          (loadHistoricoFromFirebase sample_builtins (Some sample_entries_unordered)))
     = [Fin 60, Fin 70]"
proof -
  have h1: "\<forall>(k, r)\<in>set sample_entries. \<not> isNaN (Date_getTime sample_builtins (dataHora r))"
    by (simp add: sample_entries_def sample_item_def sample_builtins_def sample_Date_parse_def)
  have h2: "\<forall>(k, r)\<in>set sample_entries_unordered.
      \<not> isNaN (Date_getTime sample_builtins (dataHora r))"
    by (simp add: sample_entries_unordered_def sample_item_def sample_builtins_def
        sample_Date_parse_def)
  have f1: "filteredHistorico sample_builtins Temperatura
       (loadHistoricoFromFirebase sample_builtins (Some sample_entries))
     = [(sample_item ''2024-01-01T10:00:00.000Z'' (Num 20) (Num 85) (Num 1))\<lparr>timestamp := ''-N1''\<rparr>,
        (sample_item ''2024-01-01T10:10:00.000Z'' (Num 22) (Num 75) (Num 9))\<lparr>timestamp := ''-N3''\<rparr>]"
    using history_reducer_sorted_filtered[OF h1, of Temperatura]
    by (simp add: sample_entries_def sample_item_def sample_builtins_def sample_Date_parse_def
        time_of_def)
  have f2: "filteredHistorico sample_builtins Umidade
       (loadHistoricoFromFirebase sample_builtins (Some sample_entries_unordered))
     = [(sample_item ''2024-01-01T10:05:00.000Z'' (Num 21) (Num 60) (Num 4))\<lparr>timestamp := ''-N3''\<rparr>,
        (sample_item ''2024-01-01T10:10:00.000Z'' (Num 22) (Num 70) (Num 9))\<lparr>timestamp := ''-N1''\<rparr>]"
    using history_reducer_sorted_filtered[OF h2, of Umidade]
    by (simp add: sample_entries_unordered_def sample_item_def sample_builtins_def
        sample_Date_parse_def time_of_def digit_val_def)
  show ?thesis
    unfolding f1 f2 by (simp add: chartData_data_def sample_item_def)
qed

text \<open>
  The claim as stated fails when a capture time does not parse: of three records
  delivered with the times 10:10, an unparseable string and 10:00, none is dropped for the
  temperature, and they come out in the order of delivery, the latest first.
\<close>

theorem unparseable_time_breaks_order:
  "map (\<lambda>item. Date_getTime sample_builtins (dataHora item))
       (filteredHistorico sample_builtins Temperatura
         (loadHistoricoFromFirebase sample_builtins (Some sample_entries_invalid)))
     = [Fin 1704103800000, NaN, Fin 1704103200000]
   \<and> chartData_data sample_builtins Temperatura
        (filteredHistorico sample_builtins Temperatura
          (loadHistoricoFromFirebase sample_builtins (Some sample_entries_invalid)))
     = [Fin 22, Fin 21, Fin 20]"
  by (simp add: loadHistoricoFromFirebase_def js_sort_def compareDataHora_def
      filteredHistorico_def chartData_data_def is_nullish_def Let_def
      sample_entries_invalid_def sample_item_def sample_builtins_def sample_Date_parse_def)

section \<open>Properties of the chart range and of the axis labels\<close>

lemma num_or_zero_fin: "num_or_zero n = Fin (the_fin (num_or_zero n))"
  by (cases n) simp_all

lemma values_fin:
  "map (\<lambda>item. num_or_zero (ToNumber J (metric_field key item))) filtered
     = map Fin (metric_values J key filtered)"
  unfolding metric_values_def map_map comp_def selected_metric_field
  by (rule map_cong[OF refl]) (rule num_or_zero_fin)

lemma filter_not_isNaN_fin: "filter (\<lambda>v. \<not> isNaN v) (map Fin vs) = map Fin vs"
  by (induction vs) simp_all

lemma Math_min_fin: "vs \<noteq> [] \<Longrightarrow> Math_min (map Fin vs) = Fin (Min (set vs))"
proof (induction vs)
  case Nil
  then show ?case by simp
next
  case (Cons x xs)
  show ?case
  proof (cases xs)
    case Nil
    then show ?thesis by simp
  next
    case (Cons y ys)
    then have "Math_min (map Fin xs) = Fin (Min (set xs))"
      using Cons.IH by simp
    then show ?thesis using Cons by simp
  qed
qed

lemma Math_max_fin: "vs \<noteq> [] \<Longrightarrow> Math_max (map Fin vs) = Fin (Max (set vs))"
proof (induction vs)
  case Nil
  then show ?case by simp
next
  case (Cons x xs)
  show ?case
  proof (cases xs)
    case Nil
    then show ?thesis by simp
  next
    case (Cons y ys)
    then have "Math_max (map Fin xs) = Fin (Max (set xs))"
      using Cons.IH by simp
    then show ?thesis using Cons by simp
  qed
qed

lemma chartRange_nonempty:
  assumes "filtered \<noteq> []"
  shows "chartRange J key filtered =
     (let vs = metric_values J key filtered; mn = Min (set vs); mx = Max (set vs);
          margin = fl (fl (mx - mn) * fl (1 / 10))
      in \<lparr>min_val = Fin (fl (mn - margin)), max_val = Fin (fl (mx + margin)),
          current = Fin (last vs), actualMin = Fin mn, actualMax = Fin mx\<rparr>)"
proof -
  have ne: "metric_values J key filtered \<noteq> []"
    using assms by (simp add: metric_values_def)
  show ?thesis
    using assms ne
    by (simp add: chartRange_def values_fin filter_not_isNaN_fin Math_min_fin Math_max_fin
        last_map Let_def)
qed

lemma sorted_map_le_last:
  assumes "sorted (map f xs)" and "x \<in> set xs"
  shows "f x \<le> f (last xs)"
proof -
  have ne: "xs \<noteq> []" using assms(2) by auto
  obtain i where i: "i < length xs" "xs ! i = x"
    using assms(2) by (auto simp: in_set_conv_nth)
  have "map f xs ! i \<le> map f xs ! (length xs - 1)"
    using assms(1) i(1) by (intro sorted_nth_mono) simp_all
  then show ?thesis using i ne by (simp add: last_conv_nth)
qed

lemma current_of_reduced_series:
  assumes "series = filteredHistorico J key historico" and "series \<noteq> []"
  shows "current (chartRange J key series) = ToNumber J (selected key (last series))"
proof -
  have "last series \<in> set series" using assms(2) by simp
  then have "ToNumber J (selected key (last series)) \<noteq> NaN"
    unfolding assms(1) filteredHistorico_filter by simp
  then obtain x where x: "ToNumber J (selected key (last series)) = Fin x"
    by (cases "ToNumber J (selected key (last series))") simp_all
  have "current (chartRange J key series) = Fin (last (metric_values J key series))"
    using assms(2) by (simp add: chartRange_nonempty Let_def)
  also have "last (metric_values J key series)
      = the_fin (num_or_zero (ToNumber J (selected key (last series))))"
    using assms(2) by (simp add: metric_values_def last_map)
  finally show ?thesis by (simp add: x)
qed

text \<open>
  C6, as the code has it. The range of an empty series is all zero. Otherwise \<open>current\<close> is
  the last value of the series, \<open>actualMin\<close> and \<open>actualMax\<close> are the least and the greatest
  value, and the displayed bounds lie beyond them by the margin, the difference of the two
  times 0.1, every operation rounded to the nearest double. For a series of one sample
  both displayed bounds are that sample (\<open>fl v = v\<close> for a number of the language): the
  margin is zero, and there is no clamp. When the series is the reduction of a window
  whose capture times are all valid dates, its last value is the chronologically last one:
  no record of the series has a later capture time than the record \<open>current\<close> comes from.
\<close>

theorem chartRange_values:
  "chartRange J key filtered =
     (if filtered = [] then zero_range
      else
        let vs = metric_values J key filtered; mn = Min (set vs); mx = Max (set vs);
            margin = fl (fl (mx - mn) * fl (1 / 10))
        in \<lparr>min_val = Fin (fl (mn - margin)), max_val = Fin (fl (mx + margin)),
            current = Fin (last vs), actualMin = Fin mn, actualMax = Fin mx\<rparr>)
   \<and> chartRange J key [item] =
       (let v = the_fin (num_or_zero (ToNumber J (selected key item)))
        in \<lparr>min_val = Fin (fl v), max_val = Fin (fl v), current = Fin v,
            actualMin = Fin v, actualMax = Fin v\<rparr>)
   \<and> ((\<forall>(k, r)\<in>set entries. \<not> isNaN (Date_getTime J (dataHora r))) \<longrightarrow>
        (let series = filteredHistorico J key (loadHistoricoFromFirebase J (Some entries))
         in series \<noteq> [] \<longrightarrow>
              current (chartRange J key series) = ToNumber J (selected key (last series))
              \<and> (\<forall>item\<in>set series. time_of J item \<le> time_of J (last series))))"
proof -
  have a: "chartRange J key [] = zero_range"
    by (simp add: chartRange_def)
  have b: "chartRange J key [item] =
       (let v = the_fin (num_or_zero (ToNumber J (selected key item)))
        in \<lparr>min_val = Fin (fl v), max_val = Fin (fl v), current = Fin v,
            actualMin = Fin v, actualMax = Fin v\<rparr>)"
    by (simp add: chartRange_nonempty metric_values_def Let_def)
  have c: "chartRange J key filtered =
     (if filtered = [] then zero_range
      else
        let vs = metric_values J key filtered; mn = Min (set vs); mx = Max (set vs);
            margin = fl (fl (mx - mn) * fl (1 / 10))
        in \<lparr>min_val = Fin (fl (mn - margin)), max_val = Fin (fl (mx + margin)),
            current = Fin (last vs), actualMin = Fin mn, actualMax = Fin mx\<rparr>)"
    using a chartRange_nonempty[of filtered J key] by (cases "filtered = []") simp_all
  have d: "current (chartRange J key series) = ToNumber J (selected key (last series))
           \<and> (\<forall>item\<in>set series. time_of J item \<le> time_of J (last series))"
    if valid: "\<forall>(k, r)\<in>set entries. \<not> isNaN (Date_getTime J (dataHora r))"
      and s: "series = filteredHistorico J key (loadHistoricoFromFirebase J (Some entries))"
      and ne: "series \<noteq> []" for series
  proof -
    have "sorted (map (time_of J) series)"
      unfolding s by (rule reduced_series_sorted[OF valid])
    then have "\<forall>item\<in>set series. time_of J item \<le> time_of J (last series)"
      by (auto intro: sorted_map_le_last)
    then show ?thesis using current_of_reduced_series[OF s ne] by simp
  qed
  show ?thesis using b c d by (simp add: Let_def)
qed

text \<open>
  The range of the CO readings of the window delivered out of order: the bounds are the
  doubles 0.19999999999999996 and 9.8, and \<open>current\<close> is 9, the reading of the record
  captured last.
\<close>

theorem chartRange_values_witness:
  "chartRange sample_builtins CO
       (filteredHistorico sample_builtins CO
         (loadHistoricoFromFirebase sample_builtins (Some sample_entries_unordered)))
     = \<lparr>min_val = Fin (900719925474099 / 4503599627370496),
        max_val = Fin (2758454771764429 / 281474976710656),
        current = Fin 9, actualMin = Fin 1, actualMax = Fin 9\<rparr>
   \<and> current (chartRange sample_builtins CO
        (filteredHistorico sample_builtins CO
          (loadHistoricoFromFirebase sample_builtins (Some sample_entries_unordered))))
     = ToNumber sample_builtins (co (last (filteredHistorico sample_builtins CO
          (loadHistoricoFromFirebase sample_builtins (Some sample_entries_unordered)))))
   \<and> map (time_of sample_builtins) (filteredHistorico sample_builtins CO
          (loadHistoricoFromFirebase sample_builtins (Some sample_entries_unordered)))
     = [1704103200000, 1704103500000, 1704103800000]"
proof -
  let ?series = "filteredHistorico sample_builtins CO
          (loadHistoricoFromFirebase sample_builtins (Some sample_entries_unordered))"
  have h: "\<forall>(k, r)\<in>set sample_entries_unordered.
      \<not> isNaN (Date_getTime sample_builtins (dataHora r))"
    by (simp add: sample_entries_unordered_def sample_item_def sample_builtins_def
        sample_Date_parse_def)
  have e: "chartRange sample_builtins CO ?series
     = \<lparr>min_val = Fin (900719925474099 / 4503599627370496),
        max_val = Fin (2758454771764429 / 281474976710656),
        current = Fin 9, actualMin = Fin 1, actualMax = Fin 9\<rparr>"
    by code_simp
  have t: "map (time_of sample_builtins) ?series = [1704103200000, 1704103500000, 1704103800000]"
    by code_simp
  have ne: "?series \<noteq> []"
    using t by auto
  have cur: "current (chartRange sample_builtins CO ?series)
      = ToNumber sample_builtins (selected CO (last ?series))"
    using chartRange_values[of sample_builtins CO ?series undefined sample_entries_unordered,
        THEN conjunct2, THEN conjunct2] h ne
    unfolding Let_def by blast
  show ?thesis
    using e t cur by (simp add: selected_def)
qed

text \<open>
  The claim as stated fails in three ways. The displayed range of the single temperature 20
  runs from 20 to 20. For the CO readings 1 and 9 the lower bound is the double
  0.19999999999999996 and not 1 less a tenth of 8. And in the window with an unparseable
  capture time \<open>current\<close> is 7, the reading of the record captured first, at 10:00, where
  the record captured last, at 10:10, reads 5.
\<close>

theorem chart_range_counterexamples:
  "chartRange sample_builtins Temperatura
       [sample_item ''2024-01-01T10:00:00.000Z'' (Num 20) (Num 85) (Num 1)]
     = \<lparr>min_val = Fin 20, max_val = Fin 20, current = Fin 20, actualMin = Fin 20, actualMax = Fin 20\<rparr>
   \<and> min_val (chartRange sample_builtins CO
        [sample_item ''2024-01-01T10:00:00.000Z'' (Num 20) (Num 85) (Num 1),
         sample_item ''2024-01-01T10:10:00.000Z'' (Num 22) (Num 75) (Num 9)])
     = Fin (900719925474099 / 4503599627370496)
   \<and> min_val (chartRange sample_builtins CO
        [sample_item ''2024-01-01T10:00:00.000Z'' (Num 20) (Num 85) (Num 1),
         sample_item ''2024-01-01T10:10:00.000Z'' (Num 22) (Num 75) (Num 9)])
     \<noteq> Fin (1 - (9 - 1) / 10)
   \<and> current (chartRange sample_builtins CO
        (filteredHistorico sample_builtins CO
          (loadHistoricoFromFirebase sample_builtins (Some sample_entries_invalid))))
     = Fin 7
   \<and> map (\<lambda>item. (Date_getTime sample_builtins (dataHora item), co item))
        (filteredHistorico sample_builtins CO
          (loadHistoricoFromFirebase sample_builtins (Some sample_entries_invalid)))
     = [(Fin 1704103800000, Num 5), (NaN, Num 6), (Fin 1704103200000, Num 7)]"
  by code_simp








text \<open>The labels of the temperatures 20 and 22, and of the humidities 60 and 70.\<close>

lemma generateYAxisLabels_example:
  "generateYAxisLabels sample_builtins Temperatura
       [sample_item ''2024-01-01T10:00:00.000Z'' (Num 20) (Num 60) (Num 1),
        sample_item ''2024-01-01T10:10:00.000Z'' (Num 22) (Num 70) (Num 4)]
     = [''22.2'' @ [degree_sign] @ ''C'', ''21.6'' @ [degree_sign] @ ''C'',
        ''21.0'' @ [degree_sign] @ ''C'', ''20.4'' @ [degree_sign] @ ''C'',
        ''19.8'' @ [degree_sign] @ ''C'']"
  "generateYAxisLabels sample_builtins Umidade
       [sample_item ''2024-01-01T10:00:00.000Z'' (Num 20) (Num 60) (Num 1),
        sample_item ''2024-01-01T10:10:00.000Z'' (Num 22) (Num 70) (Num 4)]
     = [''71%'', ''68%'', ''65%'', ''62%'', ''59%'']"
  by code_simp+

section \<open>Properties of the actuator states\<close>

text \<open>
  C8. With the first relay on, the climate control shows heating when the second relay is
  on and cooling when it is off; with the first relay off it shows off, whatever the
  second relay is. Both screens agree.
\<close>

theorem climatizador_states:
  "label (climatizador (Some (a\<lparr>rele1 := JBool True, rele2 := JBool True\<rparr>))) = ''Aquecendo''
   \<and> label (climatizador (Some (a\<lparr>rele1 := JBool True, rele2 := JBool False\<rparr>))) = ''Resfriando''
   \<and> label (climatizador (Some (a\<lparr>rele1 := JBool False\<rparr>))) = ''OFF''
   \<and> label (climatizador (Some a))
       = (if ToBoolean (rele1 a) then (if ToBoolean (rele2 a) then ''Aquecendo'' else ''Resfriando'')
          else ''OFF'')
   \<and> climatizador_index (Some (Some a)) = Inr (climatizador (Some a))"
  by (simp add: climatizador_def climatizador_index_def Let_def)

text \<open>
  C10. The humidifier state is the truthiness of the \<open>umidificador\<close> field unless that field
  is null or undefined, and only then the truthiness of the third relay. An explicit false
  shows off even when the third relay is on. Both screens agree.
\<close>

theorem umidificador_states:
  "label (umidificador (Some a))
     = (if umidificador_key a = Undefined \<or> umidificador_key a = Null
        then (if ToBoolean (rele3 a) then ''ON'' else ''OFF'')
        else (if ToBoolean (umidificador_key a) then ''ON'' else ''OFF''))
   \<and> label (umidificador (Some (a\<lparr>umidificador_key := JBool False, rele3 := JBool True\<rparr>))) = ''OFF''
   \<and> label (umidificador (Some (a\<lparr>umidificador_key := Undefined, rele3 := JBool True\<rparr>))) = ''ON''
   \<and> umidificador_index (Some (Some a)) = Inr (umidificador (Some a))"
  by (simp add: umidificador_def umidificador_index_def nullish_coalesce_def is_nullish_def Let_def)

text \<open>
  In \<open>estado_estufa.tsx\<close> the derivation runs on the node merged with the defaults, where an
  absent \<open>umidificador\<close> has become false: there the third relay is not consulted.
\<close>

lemma umidificador_after_defaults:
  "umidificador_key a = Undefined \<Longrightarrow> label (umidificador (Some (processAtuadores a))) = ''OFF''"
  by (simp add: umidificador_def processAtuadores_def spread_field_def defaultAtuadores_def
      nullish_coalesce_def is_nullish_def)

end

